theory Spec2Isabelle
  imports Complex_Main
begin

section \<open>Values exchanged with the web server\<close>

text \<open>
  \<open>request.get_json()\<close> hands the handlers a parsed JSON value: \<open>None\<close>, a \<open>bool\<close>,
  an \<open>int\<close>, a \<open>float\<close>, a \<open>str\<close>, a \<open>list\<close> or a \<open>dict\<close> with string keys. A
  \<open>dict\<close> is an association list in insertion order; a key is looked up with \<open>map_of\<close>.
  The same type describes what \<open>jsonify\<close> is given.
\<close>

datatype json =
    JNull
  | JBool bool
  | JInt int
  | JFloat real
  | JStr string
  | JList "json list"
  | JObj "(string \<times> json) list"

text \<open>The classes that \<open>type(v)\<close> can return for such a value.\<close>

datatype pytype = TStr | TBool | TInt | TFloat | TNone | TList | TDict

fun type_of :: "json \<Rightarrow> pytype" where
  "type_of JNull = TNone"
| "type_of (JBool b) = TBool"
| "type_of (JInt n) = TInt"
| "type_of (JFloat x) = TFloat"
| "type_of (JStr s) = TStr"
| "type_of (JList xs) = TList"
| "type_of (JObj kvs) = TDict"

text \<open>
  Exceptions are values: \<open>Inl e\<close> is "raised \<open>e\<close>", \<open>Inr v\<close> is "returned \<open>v\<close>".
  \<open>DatabaseError\<close> stands for whatever the database or its driver raises when it
  refuses a statement or a value.
\<close>

datatype exn =
    TypeError
  | KeyError string
  | ValueError
  | IntegrityError
  | DoesNotExist
  | DatabaseError
  | OtherError string

subsection \<open>Text of values and classes\<close>

definition dq :: string where
  "dq = [CHR 0x22]"

definition sq :: string where
  "sq = [CHR 0x27]"

fun class_name :: "pytype \<Rightarrow> string" where
  "class_name TStr = ''str''"
| "class_name TBool = ''bool''"
| "class_name TInt = ''int''"
| "class_name TFloat = ''float''"
| "class_name TNone = ''NoneType''"
| "class_name TList = ''list''"
| "class_name TDict = ''dict''"

text \<open>\<open>repr\<close> of a class, \<open><class 'str'>\<close>, and of a list of classes.\<close>

definition repr_type :: "pytype \<Rightarrow> string" where
  "repr_type t = ''<class '' @ sq @ class_name t @ sq @ ''>''"

fun join_comma :: "string list \<Rightarrow> string" where
  "join_comma [] = []"
| "join_comma [s] = s"
| "join_comma (s # t # ss) = s @ '', '' @ join_comma (t # ss)"

definition repr_types :: "pytype list \<Rightarrow> string" where
  "repr_types ts = ''['' @ join_comma (map repr_type ts) @ '']''"

fun str_nat :: "nat \<Rightarrow> string" where
  "str_nat n =
     (if n < 10 then [char_of (48 + n)]
      else str_nat (n div 10) @ [char_of (48 + n mod 10)])"

declare str_nat.simps [simp del]

definition str_int :: "int \<Rightarrow> string" where
  "str_int i = (if i < 0 then ''-'' @ str_nat (nat (- i)) else str_nat (nat i))"

text \<open>
  What the interpreter and the database library do outside \<open>app.py\<close>, as far as the
  handlers depend on it, is a parameter of the model:
  \<^item> \<open>repr\<close> is the text the interpreter prints for a \<open>float\<close>, a \<open>list\<close> or a
    \<open>dict\<close>;
  \<^item> \<open>int_fits\<close> says which integers the integer column of the database accepts
    (the database is chosen by \<open>DATABASE_URL\<close>; the default sqlite file accepts 64-bit
    signed integers);
  \<^item> \<open>int_of_str\<close> is the write of a \<open>str\<close> to an integer column: \<open>None\<close> when the
    write raises, otherwise what the column then holds.
\<close>

datatype cell = CNull | CInt int | CText string

record library =
  repr :: "json \<Rightarrow> string"
  int_fits :: "int \<Rightarrow> bool"
  int_of_str :: "string \<Rightarrow> cell option"

text \<open>
  \<open>str(v)\<close>, which is also what \<open>'{}'.format(v)\<close> prints. For a \<open>str\<close> it is the
  string itself.
\<close>

fun py_str :: "library \<Rightarrow> json \<Rightarrow> string" where
  "py_str lib (JStr s) = s"
| "py_str lib JNull = ''None''"
| "py_str lib (JBool b) = (if b then ''True'' else ''False'')"
| "py_str lib (JInt n) = str_int n"
| "py_str lib v = repr lib v"

subsection \<open>Membership and subscription\<close>

text \<open>\<open>c in s\<close> for two strings is the substring test.\<close>

fun str_contains :: "string \<Rightarrow> string \<Rightarrow> bool" where
  "str_contains [] c = (c = [])"
| "str_contains (x # xs) c = (take (length c) (x # xs) = c \<or> str_contains xs c)"

text \<open>
  \<open>col in data\<close>: key membership for a \<open>dict\<close>, element membership for a \<open>list\<close>,
  the substring test for a \<open>str\<close>, and \<open>TypeError\<close> for a value that is not iterable.
\<close>

fun contains :: "json \<Rightarrow> string \<Rightarrow> exn + bool" where
  "contains (JObj kvs) col = Inr (map_of kvs col \<noteq> None)"
| "contains (JList xs) col = Inr (JStr col \<in> set xs)"
| "contains (JStr s) col = Inr (str_contains s col)"
| "contains v col = Inl TypeError"

text \<open>
  \<open>data[col]\<close> with a string \<open>col\<close>: the value of the key for a \<open>dict\<close>
  (\<open>KeyError\<close> when it is missing), \<open>TypeError\<close> for everything else.
\<close>

fun getitem :: "json \<Rightarrow> string \<Rightarrow> exn + json" where
  "getitem (JObj kvs) col =
     (case map_of kvs col of None \<Rightarrow> Inl (KeyError col) | Some v \<Rightarrow> Inr v)"
| "getitem v col = Inl TypeError"

section \<open>Field verification\<close>

definition expected_types :: "(string \<times> pytype list) list" where
  "expected_types =
    [(''observation_id'', [TStr]),
     (''Type'', [TStr]),
     (''Date'', [TStr]),
     (''Part of a policing operation'', [TBool]),
     (''Latitude'', [TFloat, TInt]),
     (''Longitude'', [TFloat, TInt]),
     (''Gender'', [TStr]),
     (''Age range'', [TStr]),
     (''Officer-defined ethnicity'', [TStr]),
     (''Legislation'', [TStr]),
     (''Object of search'', [TStr]),
     (''station'', [TStr])]"

definition not_found_msg :: "string \<Rightarrow> string" where
  "not_found_msg col = col @ '' column not found''"

definition wrong_type_msg :: "string \<Rightarrow> pytype list \<Rightarrow> pytype \<Rightarrow> string" where
  "wrong_type_msg col expected_type actual_type =
     col @ '' column has wrong data type. Expected '' @ repr_types expected_type
         @ '', got '' @ repr_type actual_type"

text \<open>
  The loop of \<open>verify_data_types\<close> over the items of the table. The result is the pair
  the function returns: the error flag and either the dict \<open>{'error': message}\<close> or the
  string \<open>"All data types are correct"\<close>.
\<close>

fun verify_loop :: "(string \<times> pytype list) list \<Rightarrow> json \<Rightarrow> exn + (bool \<times> json)" where
  "verify_loop [] data = Inr (False, JStr ''All data types are correct'')"
| "verify_loop ((col, expected_type) # rest) data =
     (case contains data col of
        Inl e \<Rightarrow> Inl e
      | Inr present \<Rightarrow>
          if \<not> present then Inr (True, JObj [(''error'', JStr (not_found_msg col))])
          else (case getitem data col of
                  Inl e \<Rightarrow> Inl e
                | Inr v \<Rightarrow>
                    let actual_type = type_of v in
                    if actual_type \<notin> set expected_type
                    then Inr (True, JObj [(''error'',
                            JStr (wrong_type_msg col expected_type actual_type))])
                    else verify_loop rest data))"

definition verify_data_types :: "json \<Rightarrow> exn + (bool \<times> json)" where
  "verify_data_types data = verify_loop expected_types data"

section \<open>The table of predictions\<close>

text \<open>
  A row of the table behind the model \<open>Prediction\<close>, with the columns as \<open>app.py\<close>
  declares them: \<open>observation_id\<close> and \<open>observation\<close> are text, \<open>prediction\<close> and
  \<open>proba\<close> are floats, \<open>true_class\<close> is an integer column that may be null. A
  \<open>cell\<close> is what such a column holds: \<open>CNull\<close>, an integer, or a text that a
  database without strict column types kept as it came (only \<open>int_of_str\<close> can yield
  one). The table is the list of its rows in insertion order; a row's place in the list
  is its primary key. The body of a request is taken as the text it holds.
\<close>

record Prediction =
  observation_id :: string
  observation :: string
  prediction :: real
  proba :: real
  true_class :: cell

type_synonym db = "Prediction list"

subsection \<open>Values on their way into a column\<close>

text \<open>
  A \<open>TextField\<close> writes \<open>None\<close> as NULL, a \<open>str\<close> as it is and any other value as
  \<open>str(v)\<close>.
\<close>

fun text_column :: "library \<Rightarrow> json \<Rightarrow> string option" where
  "text_column lib JNull = None"
| "text_column lib v = Some (py_str lib v)"

text \<open>
  The right-hand side of \<open>Prediction.observation_id == v\<close>. The result \<open>Some t\<close> selects
  the rows whose \<open>observation_id\<close> is \<open>t\<close>, \<open>None\<close> selects no row. \<open>None\<close> is
  compared with \<open>IS NULL\<close>, and the column is never null. A list is sent to the
  database as a parenthesised list of its converted elements: with one element it
  compares like that element, with none or several the database refuses the statement.
  Any other value is converted like a value written to the column.
\<close>

fun text_query :: "library \<Rightarrow> json \<Rightarrow> exn + string option" where
  "text_query lib JNull = Inr None"
| "text_query lib (JList [v]) = text_query lib v"
| "text_query lib (JList vs) = Inl DatabaseError"
| "text_query lib v = Inr (Some (py_str lib v))"

text \<open>
  An \<open>IntegerField\<close> writes \<open>None\<close> as NULL and any other value as \<open>int(v)\<close>:
  \<open>int\<close> of a \<open>bool\<close> is 0 or 1, \<open>int\<close> of a \<open>float\<close> drops the fraction,
  \<open>int\<close> of a \<open>list\<close> or a \<open>dict\<close> raises \<open>TypeError\<close>. An integer the column
  cannot hold is refused by the database.
\<close>

definition int_of_float :: "real \<Rightarrow> int" where
  "int_of_float x = (if x < 0 then \<lceil>x\<rceil> else \<lfloor>x\<rfloor>)"

definition write_int :: "library \<Rightarrow> int \<Rightarrow> exn + cell" where
  "write_int lib n = (if int_fits lib n then Inr (CInt n) else Inl DatabaseError)"

fun int_column :: "library \<Rightarrow> json \<Rightarrow> exn + cell" where
  "int_column lib JNull = Inr CNull"
| "int_column lib (JBool b) = write_int lib (if b then 1 else 0)"
| "int_column lib (JInt n) = write_int lib n"
| "int_column lib (JFloat x) = write_int lib (int_of_float x)"
| "int_column lib (JStr s) =
     (case int_of_str lib s of None \<Rightarrow> Inl DatabaseError | Some c \<Rightarrow> Inr c)"
| "int_column lib (JList vs) = Inl TypeError"
| "int_column lib (JObj kvs) = Inl TypeError"

subsection \<open>Insert, lookup, write-back\<close>

text \<open>
  \<open>p.save()\<close> of the new row \<open>Prediction(observation_id=i, proba=pr, prediction=pred,
  observation=body)\<close>. The column \<open>observation_id\<close> is unique and not null, so the
  insert raises \<open>IntegrityError\<close> when the value is NULL or a row with that value
  exists. \<open>true_class\<close> is not assigned and is stored as NULL.
\<close>

definition save_new :: "library \<Rightarrow> db \<Rightarrow> json \<Rightarrow> string \<Rightarrow> real \<Rightarrow> real \<Rightarrow> exn + db" where
  "save_new lib d i body pred pr =
     (case text_column lib i of
        None \<Rightarrow> Inl IntegrityError
      | Some s \<Rightarrow>
          if s \<in> set (map observation_id d) then Inl IntegrityError
          else Inr (d @ [\<lparr>observation_id = s, observation = body, prediction = pred,
                         proba = pr, true_class = CNull\<rparr>]))"

text \<open>The first row whose \<open>observation_id\<close> is \<open>t\<close>; \<open>DoesNotExist\<close> without one.\<close>

fun Prediction_get :: "db \<Rightarrow> string \<Rightarrow> exn + Prediction" where
  "Prediction_get [] t = Inl DoesNotExist"
| "Prediction_get (r # rs) t = (if observation_id r = t then Inr r else Prediction_get rs t)"

text \<open>
  \<open>Prediction.get(Prediction.observation_id == v)\<close>: the query is built from \<open>v\<close>
  and run.
\<close>

definition Prediction_select :: "library \<Rightarrow> db \<Rightarrow> json \<Rightarrow> exn + Prediction" where
  "Prediction_select lib d v =
     (case text_query lib v of
        Inl e \<Rightarrow> Inl e
      | Inr None \<Rightarrow> Inl DoesNotExist
      | Inr (Some t) \<Rightarrow> Prediction_get d t)"

text \<open>
  The write-back of a row obtained with \<open>get\<close>: the row that \<open>get\<close> returned (the
  first one with the text \<open>t\<close>) is replaced by \<open>p\<close>.
\<close>

fun save_row :: "db \<Rightarrow> string \<Rightarrow> Prediction \<Rightarrow> db" where
  "save_row [] t p = []"
| "save_row (r # rs) t p = (if observation_id r = t then p # rs else r # save_row rs t p)"

text \<open>
  \<open>p.save()\<close> in \<open>update\<close>, after \<open>p.true_class = v\<close>: the value is converted
  for the integer column, which may raise, and the row is written back.
\<close>

definition save_true_class :: "library \<Rightarrow> db \<Rightarrow> Prediction \<Rightarrow> json \<Rightarrow> exn + db" where
  "save_true_class lib d p v =
     (case int_column lib v of
        Inl e \<Rightarrow> Inl e
      | Inr c \<Rightarrow> Inr (save_row d (observation_id p) (p\<lparr>true_class := c\<rparr>)))"

section \<open>The scoring artifact\<close>

text \<open>
  \<open>columns\<close>, \<open>dtypes\<close> and \<open>pipeline\<close> are loaded from files when the process
  starts. They are parameters here: \<open>as_frame\<close> is
  \<open>pd.DataFrame([observation], columns=columns).astype(dtypes)\<close>, which raises when a
  value cannot be cast; \<open>predict_proba\<close> is \<open>pipeline.predict_proba(obs)[0, 1]\<close> and
  \<open>predict_label\<close> is \<open>pipeline.predict(obs)\<close>, the label of the single row as a
  number, so that \<open>bool(prediction)\<close> is \<open>prediction \<noteq> 0\<close>.
\<close>

record 'frame artifact =
  as_frame :: "json \<Rightarrow> exn + 'frame"
  predict_proba :: "'frame \<Rightarrow> exn + real"
  predict_label :: "'frame \<Rightarrow> exn + real"

section \<open>Request handlers\<close>

text \<open>
  A request is its body (\<open>request.data\<close>) and the value \<open>request.get_json()\<close> parses
  from it. A handler returns what it hands to \<open>jsonify\<close>, or the exception that leaves
  it, together with the table after the call. A body that is not JSON is answered by
  the web framework before the handler's own code sees a value, and is outside the model.
\<close>

record request =
  data :: string
  get_json :: json

definition already_exists_msg :: "string \<Rightarrow> string" where
  "already_exists_msg i = ''Observation ID: '' @ dq @ i @ dq @ '' already exists''"

definition does_not_exist_msg :: "string \<Rightarrow> string" where
  "does_not_exist_msg i = ''Observation ID: '' @ dq @ i @ dq @ '' does not exist''"

text \<open>The part of \<open>predict\<close> after the pipeline has run: build the row and save it.\<close>

definition store_prediction ::
  "library \<Rightarrow> db \<Rightarrow> request \<Rightarrow> json \<Rightarrow> real \<Rightarrow> real \<Rightarrow> (exn + json) \<times> db" where
  "store_prediction lib d req i pr pred =
     (let response = [(''outcome'', JBool (pred \<noteq> 0))]
      in case save_new lib d i (data req) pred pr of
           Inr d' \<Rightarrow> (Inr (JObj response), d')
         | Inl e \<Rightarrow>
             if e = IntegrityError
             then (Inr (JObj (response @
                     [(''error'', JStr (already_exists_msg (py_str lib i)))])), d)
             else (Inl e, d))"

definition predict ::
  "library \<Rightarrow> 'frame artifact \<Rightarrow> db \<Rightarrow> request \<Rightarrow> (exn + json) \<times> db" where
  "predict lib art d req =
     (let obs_dict = get_json req in
      case verify_data_types obs_dict of
        Inl e \<Rightarrow> (Inl e, d)
      | Inr (is_error, error_msg) \<Rightarrow>
          if is_error then (Inr (JObj [(''error'', error_msg)]), d)
          else (case getitem obs_dict ''observation_id'' of
                  Inl e \<Rightarrow> (Inl e, d)
                | Inr i \<Rightarrow>
                   (case as_frame art obs_dict of
                      Inl e \<Rightarrow> (Inl e, d)
                    | Inr obs \<Rightarrow>
                       (case predict_proba art obs of
                          Inl e \<Rightarrow> (Inl e, d)
                        | Inr pr \<Rightarrow>
                           (case predict_label art obs of
                              Inl e \<Rightarrow> (Inl e, d)
                            | Inr pred \<Rightarrow> store_prediction lib d req i pr pred)))))"

text \<open>
  The body of the \<open>try\<close> block of \<open>update\<close>. The answer holds the attributes of the
  object \<open>p\<close>: the \<open>observation_id\<close> and the \<open>prediction\<close> read from the row, and
  the outcome as the request gave it.
\<close>

definition update_try :: "library \<Rightarrow> db \<Rightarrow> json \<Rightarrow> exn + (json \<times> db)" where
  "update_try lib d obs =
     (case getitem obs ''observation_id'' of
        Inl e \<Rightarrow> Inl e
      | Inr i \<Rightarrow>
         (case Prediction_select lib d i of
            Inl e \<Rightarrow> Inl e
          | Inr p \<Rightarrow>
             (case getitem obs ''outcome'' of
                Inl e \<Rightarrow> Inl e
              | Inr v \<Rightarrow>
                 (case save_true_class lib d p v of
                    Inl e \<Rightarrow> Inl e
                  | Inr d' \<Rightarrow>
                      Inr (JObj [(''observation_id'', JStr (observation_id p)),
                                 (''outcome'', v),
                                 (''predicted_outcome'', JFloat (prediction p))],
                           d')))))"

text \<open>
  \<open>update\<close>: the \<open>try\<close> block with its two handlers. An exception raised inside a
  handler is not caught by the other one and leaves the function.
\<close>

definition update :: "library \<Rightarrow> db \<Rightarrow> request \<Rightarrow> (exn + json) \<times> db" where
  "update lib d req =
     (let obs = get_json req in
      case update_try lib d obs of
        Inr (response, d') \<Rightarrow> (Inr response, d')
      | Inl e \<Rightarrow>
          if e = DoesNotExist
          then (case getitem obs ''id'' of
                  Inl e' \<Rightarrow> (Inl e', d)
                | Inr v \<Rightarrow>
                    (Inr (JObj [(''error'', JStr (does_not_exist_msg (py_str lib v)))]), d))
          else (Inr (JObj [(''error'', JStr ''error malformed request'')]), d))"

text \<open>\<open>list_db_contents\<close> returns every row of the table.\<close>

definition list_db_contents :: "db \<Rightarrow> Prediction list" where
  "list_db_contents d = d"

section \<open>Vocabulary of the properties\<close>

text \<open>
  A mapping has its fields in order when every field of the table is present with a
  value whose class is one of the classes the table allows.
\<close>

fun field_ok :: "(string \<times> json) list \<Rightarrow> string \<times> pytype list \<Rightarrow> bool" where
  "field_ok kvs (col, ts) =
     (case map_of kvs col of None \<Rightarrow> False | Some v \<Rightarrow> type_of v \<in> set ts)"

definition fields_ok :: "(string \<times> pytype list) list \<Rightarrow> (string \<times> json) list \<Rightarrow> bool" where
  "fields_ok tbl kvs = list_all (field_ok kvs) tbl"

text \<open>
  The first field of the table, in table order, that a mapping offends, and the
  message that belongs to an offended field: the field is missing, or its value has a
  class the table does not allow.
\<close>

definition first_offender :: "(string \<times> json) list \<Rightarrow> (string \<times> pytype list) option" where
  "first_offender kvs = find (\<lambda>e. \<not> field_ok kvs e) expected_types"

fun field_error :: "(string \<times> json) list \<Rightarrow> string \<times> pytype list \<Rightarrow> string" where
  "field_error kvs (col, ts) =
     (case map_of kvs col of
        None \<Rightarrow> col @ '' column not found''
      | Some v \<Rightarrow> col @ '' column has wrong data type. Expected '' @ repr_types ts
                    @ '', got '' @ repr_type (type_of v))"

text \<open>\<open>d[k] = v\<close> on a dict: the key keeps its place, a new key goes last.\<close>

fun set_field :: "string \<Rightarrow> json \<Rightarrow> (string \<times> json) list \<Rightarrow> (string \<times> json) list" where
  "set_field k v [] = [(k, v)]"
| "set_field k v ((k', v') # kvs) =
     (if k' = k then (k, v) # kvs else (k', v') # set_field k v kvs)"

text \<open>The fields that come before \<open>col\<close> in the table.\<close>

definition fields_before :: "string \<Rightarrow> (string \<times> pytype list) list" where
  "fields_before col = takeWhile (\<lambda>e. fst e \<noteq> col) expected_types"

text \<open>
  The example observation of the specification, its request, two artifacts and a
  row. \<open>example_lib\<close> is one library for the examples: the integers of 64 bits fit
  the integer column, as in the default sqlite database; a \<open>str\<close> is refused by the
  integer column and \<open>repr\<close> prints nothing. The examples print no \<open>float\<close>,
  \<open>list\<close> or \<open>dict\<close> and write no \<open>str\<close> to the integer column, so they apply
  only \<open>int_fits\<close>.
\<close>

definition example_obs :: "(string \<times> json) list" where
  "example_obs =
    [(''observation_id'', JStr ''obs-1''),
     (''Type'', JStr ''Person search''),
     (''Date'', JStr ''2023-01-01''),
     (''Part of a policing operation'', JBool False),
     (''Latitude'', JFloat 51.5),
     (''Longitude'', JFloat (- 0.1)),
     (''Gender'', JStr ''Male''),
     (''Age range'', JStr ''18-24''),
     (''Officer-defined ethnicity'', JStr ''White''),
     (''Legislation'', JStr ''Misuse of Drugs Act 1971''),
     (''Object of search'', JStr ''Controlled drugs''),
     (''station'', JStr ''metropolitan'')]"

definition example_request :: request where
  "example_request = \<lparr>data = ''obs-1 body'', get_json = JObj example_obs\<rparr>"

definition correct_request :: request where
  "correct_request =
     \<lparr>data = ''correct obs-1'',
      get_json = JObj [(''observation_id'', JStr ''obs-1''), (''outcome'', JInt 1)]\<rparr>"

definition outcome_request :: "json \<Rightarrow> request" where
  "outcome_request v =
     \<lparr>data = ''correct obs-1'',
      get_json = JObj [(''observation_id'', JStr ''obs-1''), (''outcome'', v)]\<rparr>"

definition example_artifact :: "json artifact" where
  "example_artifact =
     \<lparr>as_frame = Inr, predict_proba = (\<lambda>f. Inr 0.75), predict_label = (\<lambda>f. Inr 1)\<rparr>"

definition failing_artifact :: "json artifact" where
  "failing_artifact =
     \<lparr>as_frame = (\<lambda>obs. Inl ValueError), predict_proba = (\<lambda>f. Inr 0.75),
      predict_label = (\<lambda>f. Inr 1)\<rparr>"

definition example_row :: Prediction where
  "example_row =
     \<lparr>observation_id = ''obs-1'', observation = ''obs-1 body'', prediction = 1,
      proba = 0.75, true_class = CNull\<rparr>"

definition example_lib :: library where
  "example_lib =
     \<lparr>repr = (\<lambda>v. []),
      int_fits = (\<lambda>n. - (2 ^ 63) \<le> n \<and> n < 2 ^ 63),
      int_of_str = (\<lambda>s. None)\<rparr>"

section \<open>Field verification on a mapping\<close>

lemma verify_loop_obj_returns:
  "\<exists>b m. verify_loop tbl (JObj kvs) = Inr (b, m)"
  by (induction tbl) (auto simp: Let_def split: option.splits)

lemma verify_loop_ok:
  "fields_ok tbl kvs \<Longrightarrow>
     verify_loop tbl (JObj kvs) = Inr (False, JStr ''All data types are correct'')"
  by (induction tbl) (auto simp: fields_ok_def Let_def split: option.splits)

lemma verify_loop_bad:
  "\<not> fields_ok tbl kvs \<Longrightarrow>
     \<exists>s. verify_loop tbl (JObj kvs) = Inr (True, JObj [(''error'', JStr s)])"
  by (induction tbl) (auto simp: fields_ok_def Let_def split: option.splits)

lemma verify_loop_skip:
  "fields_ok pre kvs \<Longrightarrow> verify_loop (pre @ rest) (JObj kvs) = verify_loop rest (JObj kvs)"
  by (induction pre) (auto simp: fields_ok_def Let_def split: option.splits)

lemma verify_loop_find:
  "verify_loop tbl (JObj kvs) =
     (case find (\<lambda>e. \<not> field_ok kvs e) tbl of
        None \<Rightarrow> Inr (False, JStr ''All data types are correct'')
      | Some e \<Rightarrow> Inr (True, JObj [(''error'', JStr (field_error kvs e))]))"
  by (induction tbl)
    (auto simp: Let_def not_found_msg_def wrong_type_msg_def split: option.splits)

lemma find_up_to:
  "P x \<Longrightarrow> \<exists>e. find P (pre @ x # post) = Some e \<and> e \<in> set (pre @ [x])"
  by (induction pre) auto

lemma find_skip:
  "\<forall>e \<in> set pre. \<not> P e \<Longrightarrow> P x \<Longrightarrow> find P (pre @ x # post) = Some x"
  by (induction pre) auto

lemma verify_ok_iff:
  "verify_data_types (JObj kvs) = Inr (False, m) \<longleftrightarrow>
     fields_ok expected_types kvs \<and> m = JStr ''All data types are correct''"
proof (cases "fields_ok expected_types kvs")
  case True
  then show ?thesis
    using verify_loop_ok [of expected_types kvs] by (auto simp: verify_data_types_def)
next
  case False
  then show ?thesis
    using verify_loop_bad [of expected_types kvs] by (auto simp: verify_data_types_def)
qed

lemma fields_ok_id:
  "fields_ok expected_types kvs \<Longrightarrow> \<exists>s. map_of kvs ''observation_id'' = Some (JStr s)"
proof -
  assume "fields_ok expected_types kvs"
  then have "field_ok kvs (''observation_id'', [TStr])"
    by (simp add: fields_ok_def expected_types_def)
  then obtain v where v: "map_of kvs ''observation_id'' = Some v" "type_of v = TStr"
    by (auto split: option.splits)
  then show ?thesis by (cases v) auto
qed

lemma fields_ok_append:
  "fields_ok tbl kvs \<Longrightarrow> fields_ok tbl (kvs @ extra)"
  by (induction tbl) (auto simp: fields_ok_def map_add_def split: option.splits)

lemma example_obs_ok: "fields_ok expected_types example_obs"
  by (simp add: fields_ok_def expected_types_def example_obs_def)

lemma example_id: "map_of example_obs ''observation_id'' = Some (JStr ''obs-1'')"
  by (simp add: example_obs_def)

text \<open>
  The error of the first offender, when a field \<open>col\<close> of the table holds a value of
  a class the table does not allow.
\<close>

lemma verify_offended:
  assumes "expected_types = pre @ (col, ts) # post"
    and "map_of kvs col = Some v"
    and "type_of v \<notin> set ts"
  shows "\<exists>e. first_offender kvs = Some e \<and> e \<in> set (pre @ [(col, ts)]) \<and>
     verify_data_types (JObj kvs) = Inr (True, JObj [(''error'', JStr (field_error kvs e))])"
proof -
  have "\<not> field_ok kvs (col, ts)"
    using assms(2) assms(3) by simp
  then obtain e where e: "find (\<lambda>e. \<not> field_ok kvs e) (pre @ (col, ts) # post) = Some e"
      "e \<in> set (pre @ [(col, ts)])"
    using find_up_to [of "\<lambda>e. \<not> field_ok kvs e" "(col, ts)" pre post] by blast
  have "verify_data_types (JObj kvs) = Inr (True, JObj [(''error'', JStr (field_error kvs e))])"
    unfolding verify_data_types_def verify_loop_find assms(1) e(1) by simp
  then show ?thesis
    using e unfolding first_offender_def assms(1) by blast
qed

lemma verify_wrong_type:
  assumes "expected_types = pre @ (col, ts) # post"
    and "fields_ok pre kvs"
    and "map_of kvs col = Some v"
    and "type_of v \<notin> set ts"
  shows "first_offender kvs = Some (col, ts) \<and>
     verify_data_types (JObj kvs) =
       Inr (True, JObj [(''error'', JStr (col @ '' column has wrong data type. Expected '' @
          repr_types ts @ '', got '' @ repr_type (type_of v)))])"
proof -
  have bad: "\<not> field_ok kvs (col, ts)"
    using assms(3) assms(4) by simp
  have "\<forall>e \<in> set pre. \<not> \<not> field_ok kvs e"
    using assms(2) by (simp add: fields_ok_def list_all_iff)
  then have f: "find (\<lambda>e. \<not> field_ok kvs e) (pre @ (col, ts) # post) = Some (col, ts)"
    using bad by (rule find_skip)
  have "verify_data_types (JObj kvs) =
      Inr (True, JObj [(''error'', JStr (field_error kvs (col, ts)))])"
    unfolding verify_data_types_def verify_loop_find assms(1) f by simp
  then show ?thesis
    using f assms(3) unfolding first_offender_def assms(1) by simp
qed

section \<open>The table: conversions, lookup and write-back\<close>

lemma int_column_error:
  "int_column lib v = Inl e \<Longrightarrow> e = TypeError \<or> e = DatabaseError"
  by (cases v) (auto simp: write_int_def split: if_splits option.splits)

lemma text_query_error:
  "text_query lib v = Inl e \<Longrightarrow> e = DatabaseError"
  by (induction lib v rule: text_query.induct) auto

lemma Prediction_get_id:
  "Prediction_get d t = Inr p \<Longrightarrow> observation_id p = t"
  by (induction d) (auto split: if_splits)

lemma Prediction_get_absent:
  "(Prediction_get d t = Inl e) = (e = DoesNotExist \<and> t \<notin> set (map observation_id d))"
  by (induction d) auto

lemma Prediction_get_present:
  "t \<in> set (map observation_id d) \<Longrightarrow> \<exists>p. Prediction_get d t = Inr p"
  by (induction d) auto

lemma Prediction_get_append:
  "observation_id p \<notin> set (map observation_id d) \<Longrightarrow>
     Prediction_get (d @ [p]) (observation_id p) = Inr p"
  by (induction d) auto

lemma Prediction_get_save_row:
  "Prediction_get d t = Inr p \<Longrightarrow> observation_id q = t \<Longrightarrow>
     Prediction_get (save_row d t q) t = Inr q"
  by (induction d) (auto split: if_splits)

lemma Prediction_get_save_row_other:
  "u \<noteq> t \<Longrightarrow> observation_id q = t \<Longrightarrow>
     Prediction_get (save_row d t q) u = Prediction_get d u"
  by (induction d) auto

lemma save_row_ids:
  "observation_id q = t \<Longrightarrow> map observation_id (save_row d t q) = map observation_id d"
  by (induction d) auto

lemma save_row_again:
  "observation_id q = t \<Longrightarrow> save_row (save_row d t q) t q = save_row d t q"
  by (induction d) auto

lemma save_row_frame:
  "Prediction_get d t = Inr p \<Longrightarrow>
     map (\<lambda>r. r\<lparr>true_class := CNull\<rparr>) (save_row d t (p\<lparr>true_class := c\<rparr>)) =
     map (\<lambda>r. r\<lparr>true_class := CNull\<rparr>) d"
  by (induction d) (auto split: if_splits)

section \<open>The handlers, path by path\<close>

lemma store_prediction_fresh:
  "s \<notin> set (map observation_id d) \<Longrightarrow>
     store_prediction lib d req (JStr s) pr pred =
       (Inr (JObj [(''outcome'', JBool (pred \<noteq> 0))]),
        d @ [\<lparr>observation_id = s, observation = data req, prediction = pred,
               proba = pr, true_class = CNull\<rparr>])"
  by (simp add: store_prediction_def save_new_def)

lemma store_prediction_duplicate:
  "s \<in> set (map observation_id d) \<Longrightarrow>
     store_prediction lib d req (JStr s) pr pred =
       (Inr (JObj [(''outcome'', JBool (pred \<noteq> 0)),
                   (''error'', JStr (''Observation ID: '' @ [CHR 0x22] @ s @ [CHR 0x22] @
                      '' already exists''))]), d)"
  by (simp add: store_prediction_def save_new_def already_exists_msg_def dq_def)

lemma predict_invalid:
  "verify_data_types (get_json req) = Inr (True, m) \<Longrightarrow>
     predict lib art d req = (Inr (JObj [(''error'', m)]), d)"
  by (simp add: predict_def)

lemma predict_valid:
  assumes "get_json req = JObj kvs" and "fields_ok expected_types kvs"
    and "map_of kvs ''observation_id'' = Some i"
  shows "predict lib art d req =
     (case as_frame art (JObj kvs) of
        Inl e \<Rightarrow> (Inl e, d)
      | Inr f \<Rightarrow>
         (case predict_proba art f of
            Inl e \<Rightarrow> (Inl e, d)
          | Inr pr \<Rightarrow>
             (case predict_label art f of
                Inl e \<Rightarrow> (Inl e, d)
              | Inr pred \<Rightarrow> store_prediction lib d req i pr pred)))"
proof -
  have v: "verify_data_types (JObj kvs) = Inr (False, JStr ''All data types are correct'')"
    using assms(2) by (simp add: verify_ok_iff)
  show ?thesis
    by (simp add: predict_def assms(1) assms(3) v)
qed

lemma update_found:
  assumes "getitem (get_json req) ''observation_id'' = Inr i"
    and "text_query lib i = Inr (Some t)"
    and "Prediction_get d t = Inr p"
    and "getitem (get_json req) ''outcome'' = Inr v"
    and "int_column lib v = Inr c"
  shows "update lib d req =
     (Inr (JObj [(''observation_id'', JStr t), (''outcome'', v),
                 (''predicted_outcome'', JFloat (prediction p))]),
      save_row d t (p\<lparr>true_class := c\<rparr>))"
  using assms Prediction_get_id [OF assms(3)]
  by (simp add: update_def update_try_def Prediction_select_def save_true_class_def)

lemma update_unchanged:
  "update_try lib d (get_json req) = Inl e \<Longrightarrow> snd (update lib d req) = d"
  by (auto simp: update_def split: sum.splits)

lemma update_malformed:
  assumes "update_try lib d (get_json req) = Inl e" and "e \<noteq> DoesNotExist"
  shows "update lib d req = (Inr (JObj [(''error'', JStr ''error malformed request'')]), d)"
  using assms by (simp add: update_def)

lemma update_try_cases:
  "(\<exists>e. update_try lib d obs = Inl e) \<or>
   (\<exists>i t p v c. getitem obs ''observation_id'' = Inr i \<and> text_query lib i = Inr (Some t) \<and>
       Prediction_get d t = Inr p \<and> getitem obs ''outcome'' = Inr v \<and>
       int_column lib v = Inr c)"
  by (auto simp: update_try_def Prediction_select_def save_true_class_def
      split: sum.splits option.splits)

lemma getitem_not_DoesNotExist:
  "getitem v col = Inl e \<Longrightarrow> e \<noteq> DoesNotExist"
  by (cases v) (auto split: option.splits)

section \<open>Properties of the handlers\<close>

text \<open>
  C1. A reconciliation request for an id that is not in the table should be answered
  with the payload whose message is \<open>Observation ID: "<id>" does not exist\<close>. The
  handler of \<open>DoesNotExist\<close> builds the message from the key \<open>id\<close> of the request,
  not from \<open>observation_id\<close>. On the request \<open>{observation_id: "obs-1", outcome: 1}\<close>
  and the empty table the subscription raises \<open>KeyError\<close> inside the handler, so the
  exception leaves \<open>update\<close> and no payload is returned. The table stays empty.
\<close>

theorem reconcile_unknown_id_raises:
  "update lib [] correct_request = (Inl (KeyError ''id''), [])"
  by (simp add: update_def update_try_def Prediction_select_def correct_request_def)

text \<open>
  C2. A scoring request whose payload fails the verification should be answered with
  \<open>{error: <message>}\<close>, the message a string. \<open>verify_data_types\<close> already returns
  the dict \<open>{'error': message}\<close>, and \<open>predict\<close> wraps it once more: on the empty
  mapping the answer is \<open>{error: {error: "observation_id column not found"}}\<close>. The
  table is unchanged.
\<close>

theorem score_invalid_payload_nested_error:
  "predict lib art d \<lparr>data = b, get_json = JObj []\<rparr> =
     (Inr (JObj [(''error'', JObj [(''error'', JStr ''observation_id column not found'')])]), d)"
  by (simp add: predict_def verify_data_types_def expected_types_def not_found_msg_def)

text \<open>
  C3, as the handlers behave. For a scoring request whose payload is a mapping: a
  failed verification is answered with an error payload and the table is unchanged; a
  value that cannot be cast to its column type makes \<open>astype\<close> raise, nothing in
  \<open>predict\<close> catches it, and the exception leaves the handler with the table
  unchanged; an insert rejected as a duplicate is answered with the outcome and the
  message \<open>Observation ID: "<id>" already exists\<close>, the table unchanged. A
  reconciliation request that cannot be subscripted with \<open>observation_id\<close>, or that
  names a stored id but has no \<open>outcome\<close>, or whose \<open>outcome\<close> the integer column
  refuses, is answered with \<open>{error: "error malformed request"}\<close>, the table unchanged.
\<close>

theorem handler_failure_paths:
  "(verify_data_types (get_json req) = Inr (True, m) \<longrightarrow>
      predict lib art d req = (Inr (JObj [(''error'', m)]), d))
   \<and> (get_json req = JObj kvs \<and> fields_ok expected_types kvs \<and>
        as_frame art (JObj kvs) = Inl e \<longrightarrow>
      predict lib art d req = (Inl e, d))
   \<and> (get_json req = JObj kvs \<and> fields_ok expected_types kvs \<and>
        map_of kvs ''observation_id'' = Some (JStr s) \<and>
        as_frame art (JObj kvs) = Inr f \<and> predict_proba art f = Inr pr \<and>
        predict_label art f = Inr pred \<and> s \<in> set (map observation_id d) \<longrightarrow>
      predict lib art d req =
        (Inr (JObj [(''outcome'', JBool (pred \<noteq> 0)),
                    (''error'', JStr (''Observation ID: '' @ [CHR 0x22] @ s @ [CHR 0x22] @
                       '' already exists''))]), d))
   \<and> (getitem (get_json req) ''observation_id'' = Inl e' \<longrightarrow>
      update lib d req = (Inr (JObj [(''error'', JStr ''error malformed request'')]), d))
   \<and> (getitem (get_json req) ''observation_id'' = Inr i \<and> text_query lib i = Inr (Some t) \<and>
        Prediction_get d t = Inr p \<and> getitem (get_json req) ''outcome'' = Inl e'' \<longrightarrow>
      update lib d req = (Inr (JObj [(''error'', JStr ''error malformed request'')]), d))
   \<and> (getitem (get_json req) ''observation_id'' = Inr i \<and> text_query lib i = Inr (Some t) \<and>
        Prediction_get d t = Inr p \<and> getitem (get_json req) ''outcome'' = Inr v \<and>
        int_column lib v = Inl ew \<longrightarrow>
      update lib d req = (Inr (JObj [(''error'', JStr ''error malformed request'')]), d))"
proof (intro conjI impI)
  assume "verify_data_types (get_json req) = Inr (True, m)"
  then show "predict lib art d req = (Inr (JObj [(''error'', m)]), d)"
    by (rule predict_invalid)
next
  assume a: "get_json req = JObj kvs \<and> fields_ok expected_types kvs \<and>
        as_frame art (JObj kvs) = Inl e"
  obtain s0 where "map_of kvs ''observation_id'' = Some (JStr s0)"
    using fields_ok_id a by blast
  then show "predict lib art d req = (Inl e, d)"
    using a predict_valid [of req kvs "JStr s0" lib art d] by simp
next
  assume a: "get_json req = JObj kvs \<and> fields_ok expected_types kvs \<and>
        map_of kvs ''observation_id'' = Some (JStr s) \<and>
        as_frame art (JObj kvs) = Inr f \<and> predict_proba art f = Inr pr \<and>
        predict_label art f = Inr pred \<and> s \<in> set (map observation_id d)"
  then have "predict lib art d req = store_prediction lib d req (JStr s) pr pred"
    using predict_valid [of req kvs "JStr s" lib art d] by simp
  then show "predict lib art d req =
        (Inr (JObj [(''outcome'', JBool (pred \<noteq> 0)),
                    (''error'', JStr (''Observation ID: '' @ [CHR 0x22] @ s @ [CHR 0x22] @
                       '' already exists''))]), d)"
    using a store_prediction_duplicate [of s d lib req pr pred] by simp
next
  assume a: "getitem (get_json req) ''observation_id'' = Inl e'"
  then have "update_try lib d (get_json req) = Inl e'"
    by (simp add: update_try_def)
  then show "update lib d req = (Inr (JObj [(''error'', JStr ''error malformed request'')]), d)"
    using getitem_not_DoesNotExist [OF a] by (rule update_malformed)
next
  assume a: "getitem (get_json req) ''observation_id'' = Inr i \<and> text_query lib i = Inr (Some t) \<and>
        Prediction_get d t = Inr p \<and> getitem (get_json req) ''outcome'' = Inl e''"
  then have "update_try lib d (get_json req) = Inl e''"
    by (simp add: update_try_def Prediction_select_def)
  moreover have "e'' \<noteq> DoesNotExist"
    using a getitem_not_DoesNotExist by blast
  ultimately show "update lib d req = (Inr (JObj [(''error'', JStr ''error malformed request'')]), d)"
    by (rule update_malformed)
next
  assume a: "getitem (get_json req) ''observation_id'' = Inr i \<and> text_query lib i = Inr (Some t) \<and>
        Prediction_get d t = Inr p \<and> getitem (get_json req) ''outcome'' = Inr v \<and>
        int_column lib v = Inl ew"
  then have "update_try lib d (get_json req) = Inl ew"
    by (simp add: update_try_def Prediction_select_def save_true_class_def)
  moreover have "ew \<noteq> DoesNotExist"
    using a int_column_error [of lib v ew] by auto
  ultimately show "update lib d req = (Inr (JObj [(''error'', JStr ''error malformed request'')]), d)"
    by (rule update_malformed)
qed

text \<open>
  The six paths on concrete requests: the empty mapping, the example observation with
  an artifact whose cast raises, the example observation when its id is stored, and
  three reconciliation requests: without \<open>observation_id\<close>, without \<open>outcome\<close>, and
  with the list \<open>[1]\<close> as outcome.
\<close>

theorem handler_failure_paths_witness:
  "predict example_lib failing_artifact [example_row] \<lparr>data = [], get_json = JObj []\<rparr> =
     (Inr (JObj [(''error'', JObj [(''error'', JStr ''observation_id column not found'')])]),
      [example_row])
   \<and> predict example_lib failing_artifact [example_row] example_request =
     (Inl ValueError, [example_row])
   \<and> predict example_lib example_artifact [example_row] example_request =
     (Inr (JObj [(''outcome'', JBool True),
                 (''error'', JStr (''Observation ID: '' @ [CHR 0x22] @ ''obs-1'' @ [CHR 0x22] @
                    '' already exists''))]), [example_row])
   \<and> update example_lib [example_row] \<lparr>data = [], get_json = JObj []\<rparr> =
     (Inr (JObj [(''error'', JStr ''error malformed request'')]), [example_row])
   \<and> update example_lib [example_row]
        \<lparr>data = [], get_json = JObj [(''observation_id'', JStr ''obs-1'')]\<rparr> =
     (Inr (JObj [(''error'', JStr ''error malformed request'')]), [example_row])
   \<and> update example_lib [example_row] (outcome_request (JList [JInt 1])) =
     (Inr (JObj [(''error'', JStr ''error malformed request'')]), [example_row])"
proof -
  have v: "verify_data_types (JObj []) =
      Inr (True, JObj [(''error'', JStr ''observation_id column not found'')])"
    by (simp add: verify_data_types_def expected_types_def not_found_msg_def)
  have bad: "predict example_lib failing_artifact [example_row] \<lparr>data = [], get_json = JObj []\<rparr> =
       (Inr (JObj [(''error'', JObj [(''error'', JStr ''observation_id column not found'')])]),
        [example_row])
     \<and> update example_lib [example_row] \<lparr>data = [], get_json = JObj []\<rparr> =
       (Inr (JObj [(''error'', JStr ''error malformed request'')]), [example_row])"
    using handler_failure_paths [where req = "\<lparr>data = [], get_json = JObj []\<rparr>"
        and m = "JObj [(''error'', JStr ''observation_id column not found'')]"
        and lib = example_lib and art = failing_artifact and d = "[example_row]"
        and kvs = "[]" and e = ValueError and s = "[]" and f = JNull and pr = 0 and pred = 0
        and e' = "KeyError ''observation_id''" and i = JNull and t = "[]" and p = example_row
        and e'' = TypeError and v = JNull and ew = TypeError] v
    by simp
  have cast: "predict example_lib failing_artifact [example_row] example_request =
      (Inl ValueError, [example_row])"
    using handler_failure_paths [where req = example_request
        and m = JNull and lib = example_lib and art = failing_artifact and d = "[example_row]"
        and kvs = example_obs and e = ValueError and s = "[]" and f = JNull and pr = 0
        and pred = 0 and e' = TypeError and i = JNull and t = "[]" and p = example_row
        and e'' = TypeError and v = JNull and ew = TypeError] example_obs_ok
    by (simp add: example_request_def failing_artifact_def)
  have dup: "predict example_lib example_artifact [example_row] example_request =
     (Inr (JObj [(''outcome'', JBool True),
                 (''error'', JStr (''Observation ID: '' @ [CHR 0x22] @ ''obs-1'' @ [CHR 0x22] @
                    '' already exists''))]), [example_row])"
    using handler_failure_paths [where req = example_request
        and m = JNull and lib = example_lib and art = example_artifact and d = "[example_row]"
        and kvs = example_obs and e = ValueError and s = "''obs-1''"
        and f = "JObj example_obs" and pr = "0.75" and pred = 1 and e' = TypeError
        and i = JNull and t = "[]" and p = example_row and e'' = TypeError and v = JNull
        and ew = TypeError] example_obs_ok example_id
    by (simp add: example_request_def example_artifact_def example_row_def)
  have no_outcome: "update example_lib [example_row]
        \<lparr>data = [], get_json = JObj [(''observation_id'', JStr ''obs-1'')]\<rparr> =
     (Inr (JObj [(''error'', JStr ''error malformed request'')]), [example_row])"
    using handler_failure_paths [where
        req = "\<lparr>data = [], get_json = JObj [(''observation_id'', JStr ''obs-1'')]\<rparr>"
        and m = JNull and lib = example_lib and art = failing_artifact and d = "[example_row]"
        and kvs = "[]" and e = ValueError and s = "[]" and f = JNull and pr = 0 and pred = 0
        and e' = TypeError and i = "JStr ''obs-1''" and t = "''obs-1''" and p = example_row
        and e'' = "KeyError ''outcome''" and v = JNull and ew = TypeError]
    by (simp add: example_row_def)
  have refused: "update example_lib [example_row] (outcome_request (JList [JInt 1])) =
     (Inr (JObj [(''error'', JStr ''error malformed request'')]), [example_row])"
    using handler_failure_paths [where req = "outcome_request (JList [JInt 1])"
        and m = JNull and lib = example_lib and art = failing_artifact and d = "[example_row]"
        and kvs = "[]" and e = ValueError and s = "[]" and f = JNull and pr = 0 and pred = 0
        and e' = TypeError and i = "JStr ''obs-1''" and t = "''obs-1''" and p = example_row
        and e'' = TypeError and v = "JList [JInt 1]" and ew = TypeError]
    by (simp add: example_row_def outcome_request_def)
  show ?thesis using bad cast dup no_outcome refused by blast
qed

text \<open>
  Not every failure is answered with a payload. A scoring request whose body is the JSON
  value \<open>null\<close> makes \<open>col not in data\<close> raise \<open>TypeError\<close> in
  \<open>verify_data_types\<close>, and a failing cast raises after the verification has passed;
  both exceptions leave \<open>predict\<close>.
\<close>

theorem unhandled_exception_counterexample:
  "predict example_lib example_artifact [] \<lparr>data = ''null'', get_json = JNull\<rparr> =
     (Inl TypeError, [])
   \<and> predict example_lib failing_artifact [] example_request = (Inl ValueError, [])"
  by (simp add: predict_def verify_data_types_def expected_types_def example_request_def
      example_obs_def failing_artifact_def)



text \<open>
  C5, as \<open>predict\<close> behaves. A scoring request has a valid payload and an
  \<open>observation_id\<close> that is not in the table. When the cast and the pipeline return the
  probability \<open>pr\<close> and the label \<open>pred\<close>, the answer is \<open>{outcome: b}\<close>, \<open>b\<close>
  the boolean \<open>bool(pred)\<close>, and the table grows by exactly one row: that id, the body
  of the request as it came, \<open>pred\<close>, \<open>pr\<close>, and a null \<open>true_class\<close>. When the
  cast or the pipeline raises, the exception leaves \<open>predict\<close> and no row is stored.
\<close>

theorem score_fresh_observation:
  assumes "get_json req = JObj kvs" and "fields_ok expected_types kvs"
    and "map_of kvs ''observation_id'' = Some (JStr s)"
    and "s \<notin> set (map observation_id d)"
  shows "(as_frame art (JObj kvs) = Inr f \<and> predict_proba art f = Inr pr \<and>
          predict_label art f = Inr pred \<longrightarrow>
        predict lib art d req =
          (Inr (JObj [(''outcome'', JBool (pred \<noteq> 0))]),
           d @ [\<lparr>observation_id = s, observation = data req, prediction = pred,
                  proba = pr, true_class = CNull\<rparr>]))
    \<and> (as_frame art (JObj kvs) = Inl e \<longrightarrow> predict lib art d req = (Inl e, d))
    \<and> (as_frame art (JObj kvs) = Inr f \<and> predict_proba art f = Inl e \<longrightarrow>
        predict lib art d req = (Inl e, d))
    \<and> (as_frame art (JObj kvs) = Inr f \<and> predict_proba art f = Inr pr \<and>
          predict_label art f = Inl e \<longrightarrow>
        predict lib art d req = (Inl e, d))"
  using predict_valid [OF assms(1) assms(2) assms(3), of lib art d]
    store_prediction_fresh [OF assms(4), of lib req pr pred]
  by simp

text \<open>
  The example observation on the empty table: scored with an artifact that returns, and
  with an artifact whose cast raises.
\<close>

theorem score_fresh_observation_witness:
  "predict example_lib example_artifact [] example_request =
     (Inr (JObj [(''outcome'', JBool True)]),
      [\<lparr>observation_id = ''obs-1'', observation = ''obs-1 body'', prediction = 1,
        proba = 0.75, true_class = CNull\<rparr>])
   \<and> predict example_lib failing_artifact [] example_request = (Inl ValueError, [])"
proof -
  have ok: "predict example_lib example_artifact [] example_request =
     (Inr (JObj [(''outcome'', JBool True)]),
      [\<lparr>observation_id = ''obs-1'', observation = ''obs-1 body'', prediction = 1,
        proba = 0.75, true_class = CNull\<rparr>])"
    using score_fresh_observation [where req = example_request and kvs = example_obs
        and s = "''obs-1''" and d = "[]" and art = example_artifact
        and f = "JObj example_obs" and pr = "0.75" and pred = 1 and lib = example_lib
        and e = ValueError]
      example_obs_ok example_id
    by (simp add: example_request_def example_artifact_def)
  have raised: "predict example_lib failing_artifact [] example_request = (Inl ValueError, [])"
    using score_fresh_observation [where req = example_request and kvs = example_obs
        and s = "''obs-1''" and d = "[]" and art = failing_artifact
        and f = "JObj example_obs" and pr = "0.75" and pred = 1 and lib = example_lib
        and e = ValueError]
      example_obs_ok example_id
    by (simp add: example_request_def failing_artifact_def)
  show ?thesis using ok raised by blast
qed

text \<open>
  A valid observation with an id that is not stored is not always answered with an
  outcome: the example observation passes the verification, and with an artifact whose
  cast raises \<open>predict\<close> returns no payload and stores nothing.
\<close>

theorem valid_observation_not_scored_counterexample:
  "verify_data_types (get_json example_request) =
     Inr (False, JStr ''All data types are correct'')
   \<and> ''obs-1'' \<notin> set (map observation_id ([] :: db))
   \<and> predict example_lib failing_artifact [] example_request = (Inl ValueError, [])"
  by (simp add: predict_def verify_data_types_def expected_types_def example_request_def
      example_obs_def failing_artifact_def)

text \<open>
  C6, as \<open>update\<close> behaves. A reconciliation request names a stored row \<open>p\<close> (its
  id selects the rows with the text \<open>t\<close>) and carries an outcome \<open>v\<close> that the integer
  column accepts as the cell \<open>c\<close>. Then only \<open>true_class\<close> of that row changes:
  afterwards a lookup of \<open>t\<close> returns \<open>p\<close> with \<open>true_class = c\<close>, a lookup of any
  other id returns what it returned before, and every row has the \<open>observation_id\<close>,
  \<open>observation\<close>, \<open>prediction\<close> and \<open>proba\<close> it had. The cell is the outcome
  itself for an integer, 0 or 1 for a boolean, null for \<open>null\<close>, and the integer part
  for a float; for an id that is a string, \<open>t\<close> is that string.
\<close>

theorem correct_changes_true_class_only:
  assumes "getitem (get_json req) ''observation_id'' = Inr i"
    and "text_query lib i = Inr (Some t)"
    and "Prediction_get d t = Inr p"
    and "getitem (get_json req) ''outcome'' = Inr v"
    and "int_column lib v = Inr c"
  shows "Prediction_get (snd (update lib d req)) t = Inr (p\<lparr>true_class := c\<rparr>)
    \<and> (\<forall>u. u \<noteq> t \<longrightarrow> Prediction_get (snd (update lib d req)) u = Prediction_get d u)
    \<and> map (\<lambda>r. r\<lparr>true_class := CNull\<rparr>) (snd (update lib d req)) =
        map (\<lambda>r. r\<lparr>true_class := CNull\<rparr>) d
    \<and> (\<forall>n. v = JInt n \<longrightarrow> c = CInt n)
    \<and> (\<forall>b. v = JBool b \<longrightarrow> c = CInt (if b then 1 else 0))
    \<and> (v = JNull \<longrightarrow> c = CNull)
    \<and> (\<forall>x. v = JFloat x \<longrightarrow> c = CInt (if x < 0 then \<lceil>x\<rceil> else \<lfloor>x\<rfloor>))
    \<and> (\<forall>s. i = JStr s \<longrightarrow> t = s)"
proof -
  have id: "observation_id (p\<lparr>true_class := c\<rparr>) = t"
    using Prediction_get_id [OF assms(3)] by simp
  have d': "snd (update lib d req) = save_row d t (p\<lparr>true_class := c\<rparr>)"
    using update_found [OF assms] by simp
  have rows: "Prediction_get (snd (update lib d req)) t = Inr (p\<lparr>true_class := c\<rparr>)
    \<and> (\<forall>u. u \<noteq> t \<longrightarrow> Prediction_get (snd (update lib d req)) u = Prediction_get d u)
    \<and> map (\<lambda>r. r\<lparr>true_class := CNull\<rparr>) (snd (update lib d req)) =
        map (\<lambda>r. r\<lparr>true_class := CNull\<rparr>) d"
    unfolding d'
    using Prediction_get_save_row [OF assms(3) id] Prediction_get_save_row_other [OF _ id, of _ d]
      save_row_frame [OF assms(3), of c]
    by simp
  have cells: "(\<forall>n. v = JInt n \<longrightarrow> c = CInt n)
    \<and> (\<forall>b. v = JBool b \<longrightarrow> c = CInt (if b then 1 else 0))
    \<and> (v = JNull \<longrightarrow> c = CNull)
    \<and> (\<forall>x. v = JFloat x \<longrightarrow> c = CInt (if x < 0 then \<lceil>x\<rceil> else \<lfloor>x\<rfloor>))"
    using assms(5) by (auto simp: write_int_def int_of_float_def split: if_splits)
  have "\<forall>s. i = JStr s \<longrightarrow> t = s"
    using assms(2) by auto
  then show ?thesis using rows cells by blast
qed

text \<open>
  The round trip on the example: score \<open>obs-1\<close> on the empty table, reconcile it with
  the outcome 1, look it up.
\<close>

theorem correct_changes_true_class_only_witness:
  "Prediction_get (snd (update example_lib
       (snd (predict example_lib example_artifact [] example_request)) correct_request))
     ''obs-1'' =
     Inr \<lparr>observation_id = ''obs-1'', observation = ''obs-1 body'', prediction = 1,
          proba = 0.75, true_class = CInt 1\<rparr>"
proof -
  have d: "snd (predict example_lib example_artifact [] example_request) = [example_row]"
    by (simp add: predict_def example_request_def verify_data_types_def expected_types_def
        example_obs_def example_artifact_def store_prediction_def save_new_def example_row_def)
  show ?thesis
    unfolding d
    using correct_changes_true_class_only [where req = correct_request and i = "JStr ''obs-1''"
        and t = "''obs-1''" and v = "JInt 1" and c = "CInt 1" and d = "[example_row]"
        and p = example_row and lib = example_lib]
    by (simp add: correct_request_def example_row_def write_int_def example_lib_def)
qed

text \<open>
  A lookup after a reconciliation does not always return the outcome of the request: the
  list \<open>[1]\<close> is refused by the integer column and the row keeps its null
  \<open>true_class\<close>; the float 1.9 is stored as the integer 1.
\<close>

theorem outcome_not_stored_counterexample:
  "Prediction_get (snd (update example_lib [example_row] (outcome_request (JList [JInt 1]))))
     ''obs-1'' = Inr example_row
   \<and> true_class example_row = CNull
   \<and> Prediction_get (snd (update example_lib [example_row] (outcome_request (JFloat 1.9))))
     ''obs-1'' = Inr (example_row\<lparr>true_class := CInt 1\<rparr>)"
  by (simp add: update_def update_try_def Prediction_select_def save_true_class_def
      outcome_request_def example_row_def write_int_def int_of_float_def example_lib_def)

text \<open>
  C7. Reconciliation is idempotent and never inserts: the table after two calls of
  \<open>update\<close> with the same request is the table after one call, and a call leaves the
  list of stored ids as it was (no row is added, none is removed), whatever the request.
\<close>

theorem correct_idempotent:
  "snd (update lib (snd (update lib d req)) req) = snd (update lib d req)
   \<and> map observation_id (snd (update lib d req)) = map observation_id d"
proof -
  consider (err) e where "update_try lib d (get_json req) = Inl e"
    | (ok) i t p v c where "getitem (get_json req) ''observation_id'' = Inr i"
        "text_query lib i = Inr (Some t)" "Prediction_get d t = Inr p"
        "getitem (get_json req) ''outcome'' = Inr v" "int_column lib v = Inr c"
    using update_try_cases [of lib d "get_json req"] by blast
  then show ?thesis
  proof cases
    case err
    then have "snd (update lib d req) = d"
      by (rule update_unchanged)
    then show ?thesis by simp
  next
    case ok
    let ?q = "p\<lparr>true_class := c\<rparr>"
    have id: "observation_id ?q = t"
      using Prediction_get_id [OF ok(3)] by simp
    have d1: "snd (update lib d req) = save_row d t ?q"
      using update_found [OF ok] by simp
    have g: "Prediction_get (save_row d t ?q) t = Inr ?q"
      by (rule Prediction_get_save_row [OF ok(3) id])
    have "snd (update lib (save_row d t ?q) req) =
        save_row (save_row d t ?q) t (?q\<lparr>true_class := c\<rparr>)"
      using update_found [OF ok(1) ok(2) g ok(4) ok(5)] by simp
    then have "snd (update lib (save_row d t ?q) req) = save_row d t ?q"
      using save_row_again [OF id, of d] by simp
    then show ?thesis
      unfolding d1 using save_row_ids [OF id, of d] by simp
  qed
qed

text \<open>
The example row reconciled twice with the outcome 1.
\<close>

theorem correct_idempotent_witness:
  "snd (update example_lib (snd (update example_lib [example_row] correct_request))
       correct_request) = [example_row\<lparr>true_class := CInt 1\<rparr>]
   \<and> map observation_id (snd (update example_lib [example_row] correct_request)) =
     [''obs-1'']"
  using correct_idempotent [of example_lib "[example_row]" correct_request]
  by (simp add: update_def update_try_def Prediction_select_def save_true_class_def
      correct_request_def example_row_def write_int_def example_lib_def)

text \<open>
  C8, as \<open>update\<close> behaves. A reconciliation request that names a stored row (its
  id selects the rows with the text \<open>t\<close>) and carries an outcome \<open>v\<close> that the integer
  column accepts is answered with exactly
  \<open>{observation_id: t, outcome: v, predicted_outcome: x}\<close>: \<open>t\<close> is the stored id,
  which is the requested id when that is a string, \<open>v\<close> is the outcome as the request
  gave it, and \<open>x\<close> is the prediction stored in the row.
\<close>

theorem correct_success_payload:
  assumes "getitem (get_json req) ''observation_id'' = Inr i"
    and "text_query lib i = Inr (Some t)"
    and "Prediction_get d t = Inr p"
    and "getitem (get_json req) ''outcome'' = Inr v"
    and "int_column lib v = Inr c"
  shows "fst (update lib d req) =
     Inr (JObj [(''observation_id'', JStr t), (''outcome'', v),
                (''predicted_outcome'', JFloat (prediction p))])
    \<and> (\<forall>s. i = JStr s \<longrightarrow> t = s)"
proof -
  have "\<forall>s. i = JStr s \<longrightarrow> t = s"
    using assms(2) by auto
  then show ?thesis
    using update_found [OF assms] by simp
qed

text \<open>
The example row reconciled with the outcome 1.
\<close>

theorem correct_success_payload_witness:
  "fst (update example_lib [example_row] correct_request) =
     Inr (JObj [(''observation_id'', JStr ''obs-1''), (''outcome'', JInt 1),
                (''predicted_outcome'', JFloat 1)])"
  using correct_success_payload [where req = correct_request and i = "JStr ''obs-1''"
      and t = "''obs-1''" and v = "JInt 1" and c = "CInt 1" and d = "[example_row]"
      and p = example_row and lib = example_lib]
  by (simp add: correct_request_def example_row_def write_int_def example_lib_def)

text \<open>
  A stored id is not enough for the success payload: with the list \<open>[1]\<close> as outcome
  the write raises inside the \<open>try\<close> block and the answer is the generic error.
\<close>

theorem refused_outcome_counterexample:
  "Prediction_get [example_row] ''obs-1'' = Inr example_row
   \<and> fst (update example_lib [example_row] (outcome_request (JList [JInt 1]))) =
     Inr (JObj [(''error'', JStr ''error malformed request'')])"
  by (simp add: update_def update_try_def Prediction_select_def save_true_class_def
      outcome_request_def example_row_def)

text \<open>
  C9, as the verification behaves. Membership of the class is exact: a mapping whose
  \<open>Latitude\<close> or \<open>Longitude\<close> is a boolean, or whose
  \<open>Part of a policing operation\<close> is an integer, fails the verification, and the error
  reported is the error of the first field of the table that the mapping offends, which
  is that field or one before it. Whenever every field before it is present with an
  allowed class, that field is the first offender and the error is its wrong-type error.
\<close>

theorem exact_type_membership:
  "(map_of kvs ''Latitude'' = Some (JBool b) \<longrightarrow>
      (\<exists>e. first_offender kvs = Some e \<and>
           e \<in> set (fields_before ''Latitude'' @ [(''Latitude'', [TFloat, TInt])]) \<and>
           verify_data_types (JObj kvs) =
             Inr (True, JObj [(''error'', JStr (field_error kvs e))])))
   \<and> (map_of kvs ''Latitude'' = Some (JBool b) \<and> fields_ok (fields_before ''Latitude'') kvs \<longrightarrow>
      first_offender kvs = Some (''Latitude'', [TFloat, TInt]) \<and>
      verify_data_types (JObj kvs) =
        Inr (True, JObj [(''error'', JStr ''Latitude column has wrong data type. Expected [<class 'float'>, <class 'int'>], got <class 'bool'>'')]))
   \<and> (map_of kvs ''Longitude'' = Some (JBool b) \<longrightarrow>
      (\<exists>e. first_offender kvs = Some e \<and>
           e \<in> set (fields_before ''Longitude'' @ [(''Longitude'', [TFloat, TInt])]) \<and>
           verify_data_types (JObj kvs) =
             Inr (True, JObj [(''error'', JStr (field_error kvs e))])))
   \<and> (map_of kvs ''Longitude'' = Some (JBool b) \<and> fields_ok (fields_before ''Longitude'') kvs \<longrightarrow>
      first_offender kvs = Some (''Longitude'', [TFloat, TInt]) \<and>
      verify_data_types (JObj kvs) =
        Inr (True, JObj [(''error'', JStr ''Longitude column has wrong data type. Expected [<class 'float'>, <class 'int'>], got <class 'bool'>'')]))
   \<and> (map_of kvs ''Part of a policing operation'' = Some (JInt n) \<longrightarrow>
      (\<exists>e. first_offender kvs = Some e \<and>
           e \<in> set (fields_before ''Part of a policing operation'' @
                  [(''Part of a policing operation'', [TBool])]) \<and>
           verify_data_types (JObj kvs) =
             Inr (True, JObj [(''error'', JStr (field_error kvs e))])))
   \<and> (map_of kvs ''Part of a policing operation'' = Some (JInt n) \<and>
        fields_ok (fields_before ''Part of a policing operation'') kvs \<longrightarrow>
      first_offender kvs = Some (''Part of a policing operation'', [TBool]) \<and>
      verify_data_types (JObj kvs) =
        Inr (True, JObj [(''error'', JStr ''Part of a policing operation column has wrong data type. Expected [<class 'bool'>], got <class 'int'>'')]))"
proof -
  have lat: "expected_types = fields_before ''Latitude'' @ (''Latitude'', [TFloat, TInt]) #
      drop 5 expected_types"
    by (simp add: fields_before_def expected_types_def)
  have lon: "expected_types = fields_before ''Longitude'' @ (''Longitude'', [TFloat, TInt]) #
      drop 6 expected_types"
    by (simp add: fields_before_def expected_types_def)
  have pol: "expected_types = fields_before ''Part of a policing operation'' @
      (''Part of a policing operation'', [TBool]) # drop 4 expected_types"
    by (simp add: fields_before_def expected_types_def)
  show ?thesis
    using verify_wrong_type [OF lat, of kvs "JBool b"] verify_wrong_type [OF lon, of kvs "JBool b"]
      verify_wrong_type [OF pol, of kvs "JInt n"]
      verify_offended [OF lat, of kvs "JBool b"]
      verify_offended [OF lon, of kvs "JBool b"]
      verify_offended [OF pol, of kvs "JInt n"]
    by (simp add: repr_types_def repr_type_def sq_def)
qed

text \<open>
  The example observation with one of the three fields replaced, and a mapping that
  holds nothing but a boolean \<open>Latitude\<close>, whose first offender is \<open>observation_id\<close>.
\<close>

theorem exact_type_membership_witness:
  "verify_data_types (JObj (set_field ''Latitude'' (JBool True) example_obs)) =
     Inr (True, JObj [(''error'', JStr ''Latitude column has wrong data type. Expected [<class 'float'>, <class 'int'>], got <class 'bool'>'')])
   \<and> verify_data_types (JObj (set_field ''Longitude'' (JBool True) example_obs)) =
     Inr (True, JObj [(''error'', JStr ''Longitude column has wrong data type. Expected [<class 'float'>, <class 'int'>], got <class 'bool'>'')])
   \<and> verify_data_types (JObj (set_field ''Part of a policing operation'' (JInt 1) example_obs)) =
     Inr (True, JObj [(''error'', JStr ''Part of a policing operation column has wrong data type. Expected [<class 'bool'>], got <class 'int'>'')])
   \<and> first_offender [(''Latitude'', JBool True)] = Some (''observation_id'', [TStr])
   \<and> verify_data_types (JObj [(''Latitude'', JBool True)]) =
     Inr (True, JObj [(''error'', JStr ''observation_id column not found'')])"
proof (intro conjI)
  show "verify_data_types (JObj (set_field ''Latitude'' (JBool True) example_obs)) =
     Inr (True, JObj [(''error'', JStr ''Latitude column has wrong data type. Expected [<class 'float'>, <class 'int'>], got <class 'bool'>'')])"
    using exact_type_membership [where kvs = "set_field ''Latitude'' (JBool True) example_obs"
        and b = True and n = 0]
    by (simp add: example_obs_def fields_ok_def fields_before_def expected_types_def)
next
  show "verify_data_types (JObj (set_field ''Longitude'' (JBool True) example_obs)) =
     Inr (True, JObj [(''error'', JStr ''Longitude column has wrong data type. Expected [<class 'float'>, <class 'int'>], got <class 'bool'>'')])"
    using exact_type_membership [where kvs = "set_field ''Longitude'' (JBool True) example_obs"
        and b = True and n = 0]
    by (simp add: example_obs_def fields_ok_def fields_before_def expected_types_def)
next
  show "verify_data_types (JObj (set_field ''Part of a policing operation'' (JInt 1) example_obs)) =
     Inr (True, JObj [(''error'', JStr ''Part of a policing operation column has wrong data type. Expected [<class 'bool'>], got <class 'int'>'')])"
    using exact_type_membership [where
        kvs = "set_field ''Part of a policing operation'' (JInt 1) example_obs"
        and b = True and n = 1]
    by (simp add: example_obs_def fields_ok_def fields_before_def expected_types_def)
next
  have f: "first_offender [(''Latitude'', JBool True)] = Some (''observation_id'', [TStr])"
    by (simp add: first_offender_def expected_types_def)
  show "first_offender [(''Latitude'', JBool True)] = Some (''observation_id'', [TStr])"
    by (rule f)
  show "verify_data_types (JObj [(''Latitude'', JBool True)]) =
     Inr (True, JObj [(''error'', JStr ''observation_id column not found'')])"
    using exact_type_membership [where kvs = "[(''Latitude'', JBool True)]"
        and b = True and n = 0] f
    by auto
qed

text \<open>
  A boolean \<open>Latitude\<close> in a mapping without \<open>observation_id\<close>: the verification
  reports the missing \<open>observation_id\<close>, not the type of \<open>Latitude\<close>.
\<close>

theorem first_offender_counterexample:
  "verify_data_types (JObj [(''Latitude'', JBool True)]) =
     Inr (True, JObj [(''error'', JStr ''observation_id column not found'')])
   \<and> verify_data_types (JObj [(''Latitude'', JBool True)]) \<noteq>
     Inr (True, JObj [(''error'', JStr ''Latitude column has wrong data type. Expected [<class 'float'>, <class 'int'>], got <class 'bool'>'')])"
  by (simp add: verify_data_types_def expected_types_def not_found_msg_def)

text \<open>
  C10. A mapping that has the twelve fields with allowed classes passes the verification
  whatever further fields \<open>extra\<close> come with it. \<open>predict\<close> hands the whole mapping,
  further fields included, to the pipeline's frame, and the row it stores holds the body
  of the request as it came.
\<close>

theorem extra_fields_ignored:
  assumes "get_json req = JObj (kvs @ extra)" and "fields_ok expected_types kvs"
    and "map_of kvs ''observation_id'' = Some i"
  shows "\<exists>s. i = JStr s
    \<and> verify_data_types (JObj (kvs @ extra)) =
        Inr (False, JStr ''All data types are correct'')
    \<and> predict lib art d req =
       (case as_frame art (JObj (kvs @ extra)) of
          Inl e \<Rightarrow> (Inl e, d)
        | Inr f \<Rightarrow>
           (case predict_proba art f of
              Inl e \<Rightarrow> (Inl e, d)
            | Inr pr \<Rightarrow>
               (case predict_label art f of
                  Inl e \<Rightarrow> (Inl e, d)
                | Inr pred \<Rightarrow> store_prediction lib d req i pr pred)))
    \<and> (as_frame art (JObj (kvs @ extra)) = Inr f \<and> predict_proba art f = Inr pr \<and>
        predict_label art f = Inr pred \<and> s \<notin> set (map observation_id d) \<longrightarrow>
       snd (predict lib art d req) =
         d @ [\<lparr>observation_id = s, observation = data req, prediction = pred,
                proba = pr, true_class = CNull\<rparr>])"
proof -
  obtain s where s: "i = JStr s"
    using fields_ok_id [OF assms(2)] assms(3) by auto
  have ok: "fields_ok expected_types (kvs @ extra)"
    using assms(2) by (rule fields_ok_append)
  have i: "map_of (kvs @ extra) ''observation_id'' = Some i"
    using assms(3) by (simp add: map_add_def)
  have v: "verify_data_types (JObj (kvs @ extra)) =
      Inr (False, JStr ''All data types are correct'')"
    using ok by (simp add: verify_ok_iff)
  note p = predict_valid [OF assms(1) ok i, of lib art d]
  have "as_frame art (JObj (kvs @ extra)) = Inr f \<and> predict_proba art f = Inr pr \<and>
        predict_label art f = Inr pred \<and> s \<notin> set (map observation_id d) \<longrightarrow>
       snd (predict lib art d req) =
         d @ [\<lparr>observation_id = s, observation = data req, prediction = pred,
                proba = pr, true_class = CNull\<rparr>]"
    using p store_prediction_fresh [of s d lib req pr pred] s by simp
  then show ?thesis using v p s by blast
qed

text \<open>
The example observation with a further field \<open>note\<close>.
\<close>

theorem extra_fields_ignored_witness:
  "verify_data_types (JObj (example_obs @ [(''note'', JList [JInt 1, JNull])])) =
     Inr (False, JStr ''All data types are correct'')
   \<and> snd (predict example_lib example_artifact []
        \<lparr>data = ''body with note'',
         get_json = JObj (example_obs @ [(''note'', JList [JInt 1, JNull])])\<rparr>) =
     [\<lparr>observation_id = ''obs-1'', observation = ''body with note'', prediction = 1,
       proba = 0.75, true_class = CNull\<rparr>]"
  using extra_fields_ignored [where
      req = "\<lparr>data = ''body with note'',
               get_json = JObj (example_obs @ [(''note'', JList [JInt 1, JNull])])\<rparr>"
      and kvs = example_obs and extra = "[(''note'', JList [JInt 1, JNull])]"
      and i = "JStr ''obs-1''" and lib = example_lib and art = example_artifact and d = "[]"
      and f = "JObj (example_obs @ [(''note'', JList [JInt 1, JNull])])" and pr = "0.75"
      and pred = 1]
    example_obs_ok example_id
  by (simp add: example_artifact_def store_prediction_def save_new_def)

end
